theory Spec2Isabelle
  imports Main
begin

section \<open>The QR code generator: state, view and export handlers of \<open>src/App.jsx\<close>\<close>

text \<open>
  The component \<open>App\<close> holds seven pieces of \<open>useState\<close> state and one \<open>useRef\<close>
  reference, renders a \<open>QRCodeCanvas\<close> inside the \<open>div\<close> the reference points to, and
  offers two asynchronous handlers, \<open>handleDownload\<close> and \<open>handleShare\<close>.

  JavaScript strings are modelled as HOL strings whose characters are read as the code
  points \<open>U+0000\<close> to \<open>U+00FF\<close>; the numeric state \<open>size\<close> is an \<open>int\<close>. Field names
  carry a suffix where the source's name is an Isabelle keyword or constant
  (\<open>text\<close>, \<open>value\<close>, \<open>size\<close>).
\<close>

subsection \<open>Data\<close>

text \<open>The props handed to \<open>QRCodeCanvas\<close> (lines 165 to 172).\<close>

record qr_props =
  value_prop :: string
  size_prop :: int
  level_prop :: string
  includeMargin_prop :: bool
  fgColor_prop :: string
  bgColor_prop :: string

text \<open>
  The DOM node behind \<open>qrRef\<close> is the \<open>div\<close> of line 164; what a serializer sees of it
  is the canvas drawn from the props of the last render, so the node is identified with
  those props.
\<close>

type_synonym element = qr_props

text \<open>
  Lines 8 to 15. \<open>useRef()\<close> starts with \<open>current\<close> undefined, which is \<open>None\<close>.
\<close>

record app_state =
  text_state :: string
  size_state :: int
  fgColor_state :: string
  bgColor_state :: string
  level_state :: string
  includeMargin_state :: bool
  darkMode_state :: bool
  qrRef_current :: "element option"

definition initial_state :: app_state where
  "initial_state =
     \<lparr>text_state = '''', size_state = 256, fgColor_state = ''#000000'',
      bgColor_state = ''#ffffff'', level_state = ''L'', includeMargin_state = True,
      darkMode_state = False, qrRef_current = None\<rparr>"

text \<open>
  A promise handed back by a library or by the platform either resolves with a value,
  rejects with an error (of which only the message is kept), or never settles.
\<close>

datatype 'a promise = Resolves 'a | Rejects string | Never

datatype response = Response nat

type_synonym blob = "nat list"

text \<open>\<open>new File([blob], 'qr-code.png', { type: 'image/png' })\<close>\<close>

record file_object =
  file_bits :: "blob list"
  file_name :: string
  file_type :: string

text \<open>The argument of \<open>navigator.share\<close> (lines 41 to 45).\<close>

record share_data =
  share_files :: "file_object list"
  share_title :: string
  share_text :: string

text \<open>The anchor element of lines 23 to 25.\<close>

record link =
  download :: string
  href :: string

text \<open>
  Everything the handlers consume from outside the component: the two serializers of
  \<open>html-to-image\<close>, \<open>fetch\<close> and \<open>Response.blob\<close>, and \<open>navigator.share\<close>, which is
  undefined (\<open>None\<close>) on a platform without the Web Share API.
\<close>

record platform =
  toPng :: "element option \<Rightarrow> string promise"
  toSvg :: "element option \<Rightarrow> string promise"
  fetch :: "string \<Rightarrow> response promise"
  response_blob :: "response \<Rightarrow> blob promise"
  navigator_share :: "(share_data \<Rightarrow> unit promise) option"

text \<open>
  The calls a handler makes to the outside, in program order: the consumed contracts
  above, the click on the download link, the two toasts, and the state setters of
  lines 8 to 14. \<open>toast.success\<close>, \<open>toast.error\<close>, \<open>document.createElement\<close> and
  \<open>link.click\<close> are taken to return normally.
\<close>

datatype call =
    ToPng "element option"
  | ToSvg "element option"
  | Fetch string
  | ResponseBlob response
  | NavigatorShare share_data
  | LinkClick link
  | ToastSuccess string
  | ToastError string
  | SetText string
  | SetSize int
  | SetFgColor string
  | SetBgColor string
  | SetLevel string
  | SetIncludeMargin bool
  | SetDarkMode bool

subsection \<open>Asynchronous control flow\<close>

text \<open>
  A run of an \<open>async\<close> function body is the list of calls it made and how it stopped:
  with a value, with a thrown error, or suspended for ever at an \<open>await\<close> whose promise
  never settles.
\<close>

datatype 'a step = Value 'a | Throw string | Suspend

type_synonym 'a proc = "call list \<times> 'a step"

definition await :: "call \<Rightarrow> 'a promise \<Rightarrow> 'a proc" where
  "await c p =
     ([c], case p of Resolves v \<Rightarrow> Value v | Rejects e \<Rightarrow> Throw e | Never \<Rightarrow> Suspend)"

definition perform :: "call \<Rightarrow> unit proc" where
  "perform c = ([c], Value ())"

definition throw :: "string \<Rightarrow> 'a proc" where
  "throw e = ([], Throw e)"

definition andThen :: "'a proc \<Rightarrow> ('a \<Rightarrow> 'b proc) \<Rightarrow> 'b proc" where
  "andThen m f =
     (case m of
        (cs, Value v) \<Rightarrow> (case f v of (cs', r) \<Rightarrow> (cs @ cs', r))
      | (cs, Throw e) \<Rightarrow> (cs, Throw e)
      | (cs, Suspend) \<Rightarrow> (cs, Suspend))"

definition try_catch :: "'a proc \<Rightarrow> (string \<Rightarrow> 'a proc) \<Rightarrow> 'a proc" where
  "try_catch m h =
     (case m of
        (cs, Throw e) \<Rightarrow> (case h e of (cs', r) \<Rightarrow> (cs @ cs', r))
      | (cs, Value v) \<Rightarrow> (cs, Value v)
      | (cs, Suspend) \<Rightarrow> (cs, Suspend))"

definition calls :: "'a proc \<Rightarrow> call list" where
  "calls r = fst r"

definition completion :: "'a proc \<Rightarrow> 'a step" where
  "completion r = snd r"

subsection \<open>String helpers of the language\<close>

text \<open>
  \<open>String.prototype.toLowerCase\<close> on code points below 256: the letters \<open>A\<close> to \<open>Z\<close>
  and \<open>U+00C0\<close> to \<open>U+00DE\<close> (without the multiplication sign \<open>U+00D7\<close>) move up by 32,
  every other character stays.
\<close>

definition lower_char :: "char \<Rightarrow> char" where
  "lower_char c =
     (let n = (of_char c :: nat)
      in if (65 \<le> n \<and> n \<le> 90) \<or> (192 \<le> n \<and> n \<le> 222 \<and> n \<noteq> 215)
         then char_of (n + 32) else c)"

definition toLowerCase :: "string \<Rightarrow> string" where
  "toLowerCase s = map lower_char s"

text \<open>\<open>a || b\<close> on strings: the empty string is the only falsy string.\<close>

definition js_or :: "string \<Rightarrow> string \<Rightarrow> string" where
  "js_or a b = (if a = '''' then b else a)"

subsection \<open>The view\<close>

text \<open>Lines 165 to 172.\<close>

definition QRCodeCanvas_props :: "app_state \<Rightarrow> qr_props" where
  "QRCodeCanvas_props st =
     \<lparr>value_prop = js_or (text_state st) ''https://stackblitz.com'',
      size_prop = size_state st,
      level_prop = level_state st,
      includeMargin_prop = includeMargin_state st,
      fgColor_prop = fgColor_state st,
      bgColor_prop = bgColor_state st\<rparr>"

text \<open>
  \<open>ref={qrRef}\<close> on line 164: after a render, \<open>qrRef.current\<close> is the node showing the
  canvas of that render.
\<close>

definition rerender :: "app_state \<Rightarrow> app_state" where
  "rerender st = st\<lparr>qrRef_current := Some (QRCodeCanvas_props st)\<rparr>"

text \<open>The setters returned by \<open>useState\<close>; every other call leaves the state alone.\<close>

fun apply_call :: "app_state \<Rightarrow> call \<Rightarrow> app_state" where
  "apply_call st (SetText v) = st\<lparr>text_state := v\<rparr>"
| "apply_call st (SetSize v) = st\<lparr>size_state := v\<rparr>"
| "apply_call st (SetFgColor v) = st\<lparr>fgColor_state := v\<rparr>"
| "apply_call st (SetBgColor v) = st\<lparr>bgColor_state := v\<rparr>"
| "apply_call st (SetLevel v) = st\<lparr>level_state := v\<rparr>"
| "apply_call st (SetIncludeMargin v) = st\<lparr>includeMargin_state := v\<rparr>"
| "apply_call st (SetDarkMode v) = st\<lparr>darkMode_state := v\<rparr>"
| "apply_call st (ToPng el) = st"
| "apply_call st (ToSvg el) = st"
| "apply_call st (Fetch u) = st"
| "apply_call st (ResponseBlob r) = st"
| "apply_call st (NavigatorShare d) = st"
| "apply_call st (LinkClick l) = st"
| "apply_call st (ToastSuccess m) = st"
| "apply_call st (ToastError m) = st"

definition run_calls :: "app_state \<Rightarrow> call list \<Rightarrow> app_state" where
  "run_calls st cs = foldl apply_call st cs"

text \<open>The \<open>onChange\<close> handlers of lines 63, 84, 99, 112, 123, 135 and 148.\<close>

definition onTextChange :: "string \<Rightarrow> unit proc" where
  "onTextChange v = perform (SetText v)"

definition onSizeChange :: "int \<Rightarrow> unit proc" where
  "onSizeChange v = perform (SetSize v)"

definition onFgColorChange :: "string \<Rightarrow> unit proc" where
  "onFgColorChange v = perform (SetFgColor v)"

definition onBgColorChange :: "string \<Rightarrow> unit proc" where
  "onBgColorChange v = perform (SetBgColor v)"

definition onLevelChange :: "string \<Rightarrow> unit proc" where
  "onLevelChange v = perform (SetLevel v)"

definition onIncludeMarginChange :: "bool \<Rightarrow> unit proc" where
  "onIncludeMarginChange v = perform (SetIncludeMargin v)"

definition onDarkModeChange :: "bool \<Rightarrow> unit proc" where
  "onDarkModeChange v = perform (SetDarkMode v)"

subsection \<open>The export handlers\<close>

text \<open>
  The \<open>try\<close> block of \<open>handleDownload\<close> (lines 19 to 28). The format is a string:
  the two callers, on lines 177 and 183, pass the literals \<open>PNG\<close> and \<open>SVG\<close>.
\<close>

definition handleDownload_try :: "platform \<Rightarrow> app_state \<Rightarrow> string \<Rightarrow> unit proc" where
  "handleDownload_try env st format =
     andThen
       (if format = ''PNG''
        then await (ToPng (qrRef_current st)) (toPng env (qrRef_current st))
        else await (ToSvg (qrRef_current st)) (toSvg env (qrRef_current st)))
       (\<lambda>dataUrl.
          let lnk = \<lparr>download = ''qr-code.'' @ toLowerCase format, href = dataUrl\<rparr>
          in andThen (perform (LinkClick lnk))
               (\<lambda>_. perform (ToastSuccess (''Downloaded as '' @ format))))"

text \<open>Lines 17 to 32.\<close>

definition handleDownload :: "platform \<Rightarrow> app_state \<Rightarrow> string \<Rightarrow> unit proc" where
  "handleDownload env st format =
     try_catch (handleDownload_try env st format)
       (\<lambda>err. perform (ToastError ''Download failed''))"

text \<open>
  \<open>handleDownload\<close> is an ordinary function and accepts an argument of any type. The
  primitive values of the language:
\<close>

datatype js_value = JUndefined | JNull | JBoolean bool | JNumber int | JString string

text \<open>
  Lines 19 to 28 for an argument of any primitive type. \<open>format === 'PNG'\<close> is strict
  equality, true of the string \<open>PNG\<close> only; \<open>format.toLowerCase()\<close> on line 24 is a
  \<open>TypeError\<close> unless \<open>format\<close> is a string, raised after the serializer has been
  awaited and before the link is clicked.
\<close>

definition handleDownload_any_try :: "platform \<Rightarrow> app_state \<Rightarrow> js_value \<Rightarrow> unit proc" where
  "handleDownload_any_try env st format =
     andThen
       (if format = JString ''PNG''
        then await (ToPng (qrRef_current st)) (toPng env (qrRef_current st))
        else await (ToSvg (qrRef_current st)) (toSvg env (qrRef_current st)))
       (\<lambda>dataUrl.
          case format of
            JString s \<Rightarrow>
              (let lnk = \<lparr>download = ''qr-code.'' @ toLowerCase s, href = dataUrl\<rparr>
               in andThen (perform (LinkClick lnk))
                    (\<lambda>_. perform (ToastSuccess (''Downloaded as '' @ s))))
          | JUndefined \<Rightarrow> throw ''TypeError''
          | JNull \<Rightarrow> throw ''TypeError''
          | JBoolean b \<Rightarrow> throw ''TypeError''
          | JNumber n \<Rightarrow> throw ''TypeError'')"

definition handleDownload_any :: "platform \<Rightarrow> app_state \<Rightarrow> js_value \<Rightarrow> unit proc" where
  "handleDownload_any env st format =
     try_catch (handleDownload_any_try env st format)
       (\<lambda>err. perform (ToastError ''Download failed''))"

text \<open>The \<open>try\<close> block of \<open>handleShare\<close> (lines 36 to 48).\<close>

definition handleShare_try :: "platform \<Rightarrow> app_state \<Rightarrow> unit proc" where
  "handleShare_try env st =
     andThen (await (ToPng (qrRef_current st)) (toPng env (qrRef_current st)))
       (\<lambda>dataUrl.
     andThen (await (Fetch dataUrl) (fetch env dataUrl))
       (\<lambda>resp.
     andThen (await (ResponseBlob resp) (response_blob env resp))
       (\<lambda>blb.
          let fl = \<lparr>file_bits = [blb], file_name = ''qr-code.png'',
                    file_type = ''image/png''\<rparr>
          in case navigator_share env of
               Some share \<Rightarrow>
                 (let d = \<lparr>share_files = [fl], share_title = ''QR Code'',
                           share_text = ''Check out this QR code!''\<rparr>
                  in await (NavigatorShare d) (share d))
             | None \<Rightarrow> throw ''Sharing not supported'')))"

text \<open>Lines 34 to 52.\<close>

definition handleShare :: "platform \<Rightarrow> app_state \<Rightarrow> unit proc" where
  "handleShare env st =
     try_catch (handleShare_try env st)
       (\<lambda>err. perform (ToastError ''Sharing failed''))"

subsection \<open>Observations on a run\<close>

fun is_notification :: "call \<Rightarrow> bool" where
  "is_notification (ToastSuccess m) = True"
| "is_notification (ToastError m) = True"
| "is_notification c = False"

definition notifications :: "call list \<Rightarrow> call list" where
  "notifications cs = filter is_notification cs"

text \<open>The downloads triggered: the links that were clicked.\<close>

fun clicked :: "call \<Rightarrow> link option" where
  "clicked (LinkClick l) = Some l"
| "clicked c = None"

definition downloads :: "call list \<Rightarrow> link list" where
  "downloads cs = List.map_filter clicked cs"

text \<open>The nodes handed to a serializer, tagged with the serializer.\<close>

fun png_input :: "call \<Rightarrow> element option option" where
  "png_input (ToPng el) = Some el"
| "png_input c = None"

fun svg_input :: "call \<Rightarrow> element option option" where
  "svg_input (ToSvg el) = Some el"
| "svg_input c = None"

definition png_serialized :: "call list \<Rightarrow> element option list" where
  "png_serialized cs = List.map_filter png_input cs"

definition svg_serialized :: "call list \<Rightarrow> element option list" where
  "svg_serialized cs = List.map_filter svg_input cs"

text \<open>The payloads \<open>navigator.share\<close> was invoked with.\<close>

fun share_input :: "call \<Rightarrow> share_data option" where
  "share_input (NavigatorShare d) = Some d"
| "share_input c = None"

definition share_requests :: "call list \<Rightarrow> share_data list" where
  "share_requests cs = List.map_filter share_input cs"

text \<open>
  A share has been performed when \<open>navigator.share\<close> was invoked and its promise
  resolved; a rejected or pending promise means the platform did not complete the share.
\<close>

definition share_resolved :: "platform \<Rightarrow> share_data \<Rightarrow> bool" where
  "share_resolved env d =
     (case navigator_share env of
        Some share \<Rightarrow> share d = Resolves ()
      | None \<Rightarrow> False)"

definition shares_performed :: "platform \<Rightarrow> call list \<Rightarrow> share_data list" where
  "shares_performed env cs = filter (share_resolved env) (share_requests cs)"

text \<open>
  One of the three awaits of \<open>handleShare\<close> that come before the test of
  \<open>navigator.share\<close> on line 40 (serialization, \<open>fetch\<close>, \<open>blob\<close>) never settles.
\<close>

definition share_prelude_pending :: "platform \<Rightarrow> app_state \<Rightarrow> bool" where
  "share_prelude_pending env st =
     (case toPng env (qrRef_current st) of
        Never \<Rightarrow> True
      | Rejects e \<Rightarrow> False
      | Resolves u \<Rightarrow>
          (case fetch env u of
             Never \<Rightarrow> True
           | Rejects e \<Rightarrow> False
           | Resolves r \<Rightarrow>
               (case response_blob env r of
                  Never \<Rightarrow> True
                | Rejects e \<Rightarrow> False
                | Resolves b \<Rightarrow> False)))"

text \<open>The extension of a file name: what follows its last dot.\<close>

definition file_extension :: "string \<Rightarrow> string" where
  "file_extension name = rev (takeWhile (\<lambda>c. c \<noteq> CHR ''.'') (rev name))"

subsection \<open>Sample platforms and states\<close>

text \<open>
  A platform on which every consumed contract succeeds; one without the Web Share API;
  one without it whose PNG serializer never settles; one whose serializers reject (a
  detached node); one on which the user dismisses the share sheet; one whose \<open>fetch\<close>
  rejects; and one whose \<open>blob\<close> conversion rejects.
\<close>

definition working_platform :: platform where
  "working_platform =
     \<lparr>toPng = (\<lambda>el. Resolves ''data:image/png;base64,iVBORw0KGgo=''),
      toSvg = (\<lambda>el. Resolves ''data:image/svg+xml;charset=utf-8,svg''),
      fetch = (\<lambda>u. Resolves (Response 200)),
      response_blob = (\<lambda>r. Resolves [137, 80, 78, 71]),
      navigator_share = Some (\<lambda>d. Resolves ())\<rparr>"

definition desktop_platform :: platform where
  "desktop_platform = working_platform\<lparr>navigator_share := None\<rparr>"

definition stalled_desktop_platform :: platform where
  "stalled_desktop_platform = desktop_platform\<lparr>toPng := (\<lambda>el. Never)\<rparr>"

definition detached_platform :: platform where
  "detached_platform =
     working_platform\<lparr>toPng := (\<lambda>el. Rejects ''detached''),
                        toSvg := (\<lambda>el. Rejects ''detached'')\<rparr>"

definition cancelling_platform :: platform where
  "cancelling_platform =
     working_platform\<lparr>navigator_share := Some (\<lambda>d. Rejects ''AbortError'')\<rparr>"

definition offline_platform :: platform where
  "offline_platform = working_platform\<lparr>fetch := (\<lambda>u. Rejects ''NetworkError'')\<rparr>"

definition corrupt_platform :: platform where
  "corrupt_platform = working_platform\<lparr>response_blob := (\<lambda>r. Rejects ''TypeError'')\<rparr>"

definition example_state :: app_state where
  "example_state =
     rerender
       \<lparr>text_state = ''https://example.com'', size_state = 256,
        fgColor_state = ''#000000'', bgColor_state = ''#ffffff'', level_state = ''L'',
        includeMargin_state = True, darkMode_state = False, qrRef_current = None\<rparr>"

section \<open>Running the handlers\<close>

subsection \<open>Lower-casing the formats used below\<close>

lemma toLowerCase_PNG: "toLowerCase ''PNG'' = ''png''"
  by code_simp

lemma toLowerCase_SVG: "toLowerCase ''SVG'' = ''svg''"
  by code_simp

lemma toLowerCase_svg: "toLowerCase ''svg'' = ''svg''"
  by code_simp

lemma toLowerCase_png: "toLowerCase ''png'' = ''png''"
  by code_simp


subsection \<open>The runs of the handlers, by the outcome of each awaited promise\<close>

lemma handleDownload_try_run:
  "handleDownload_try env st format =
     (case (if format = ''PNG'' then toPng env (qrRef_current st)
            else toSvg env (qrRef_current st)) of
        Resolves u \<Rightarrow>
          ([if format = ''PNG'' then ToPng (qrRef_current st) else ToSvg (qrRef_current st),
            LinkClick \<lparr>download = ''qr-code.'' @ toLowerCase format, href = u\<rparr>,
            ToastSuccess (''Downloaded as '' @ format)], Value ())
      | Rejects e \<Rightarrow>
          ([if format = ''PNG'' then ToPng (qrRef_current st) else ToSvg (qrRef_current st)],
           Throw e)
      | Never \<Rightarrow>
          ([if format = ''PNG'' then ToPng (qrRef_current st) else ToSvg (qrRef_current st)],
           Suspend))"
  by (simp add: handleDownload_try_def andThen_def await_def perform_def
      split: promise.splits)

lemma handleDownload_run:
  "handleDownload env st format =
     (case (if format = ''PNG'' then toPng env (qrRef_current st)
            else toSvg env (qrRef_current st)) of
        Resolves u \<Rightarrow>
          ([if format = ''PNG'' then ToPng (qrRef_current st) else ToSvg (qrRef_current st),
            LinkClick \<lparr>download = ''qr-code.'' @ toLowerCase format, href = u\<rparr>,
            ToastSuccess (''Downloaded as '' @ format)], Value ())
      | Rejects e \<Rightarrow>
          ([if format = ''PNG'' then ToPng (qrRef_current st) else ToSvg (qrRef_current st),
            ToastError ''Download failed''], Value ())
      | Never \<Rightarrow>
          ([if format = ''PNG'' then ToPng (qrRef_current st) else ToSvg (qrRef_current st)],
           Suspend))"
  by (simp add: handleDownload_def handleDownload_try_run try_catch_def perform_def
      split: promise.splits)

lemma handleShare_try_run:
  "handleShare_try env st =
     (case toPng env (qrRef_current st) of
        Never \<Rightarrow> ([ToPng (qrRef_current st)], Suspend)
      | Rejects e \<Rightarrow> ([ToPng (qrRef_current st)], Throw e)
      | Resolves u \<Rightarrow>
          (case fetch env u of
             Never \<Rightarrow> ([ToPng (qrRef_current st), Fetch u], Suspend)
           | Rejects e \<Rightarrow> ([ToPng (qrRef_current st), Fetch u], Throw e)
           | Resolves r \<Rightarrow>
               (case response_blob env r of
                  Never \<Rightarrow> ([ToPng (qrRef_current st), Fetch u, ResponseBlob r], Suspend)
                | Rejects e \<Rightarrow>
                    ([ToPng (qrRef_current st), Fetch u, ResponseBlob r], Throw e)
                | Resolves b \<Rightarrow>
                    (case navigator_share env of
                       None \<Rightarrow>
                         ([ToPng (qrRef_current st), Fetch u, ResponseBlob r],
                          Throw ''Sharing not supported'')
                     | Some share \<Rightarrow>
                         ([ToPng (qrRef_current st), Fetch u, ResponseBlob r,
                           NavigatorShare
                             \<lparr>share_files =
                                [\<lparr>file_bits = [b], file_name = ''qr-code.png'',
                                  file_type = ''image/png''\<rparr>],
                              share_title = ''QR Code'',
                              share_text = ''Check out this QR code!''\<rparr>],
                          case share
                                 \<lparr>share_files =
                                    [\<lparr>file_bits = [b], file_name = ''qr-code.png'',
                                      file_type = ''image/png''\<rparr>],
                                  share_title = ''QR Code'',
                                  share_text = ''Check out this QR code!''\<rparr> of
                            Resolves x \<Rightarrow> Value ()
                          | Rejects e \<Rightarrow> Throw e
                          | Never \<Rightarrow> Suspend)))))"
  by (simp add: handleShare_try_def andThen_def await_def throw_def
      split: promise.splits option.splits)

lemma handleShare_run:
  "handleShare env st =
     (case handleShare_try env st of
        (cs, Throw e) \<Rightarrow> (cs @ [ToastError ''Sharing failed''], Value ())
      | (cs, Value v) \<Rightarrow> (cs, Value v)
      | (cs, Suspend) \<Rightarrow> (cs, Suspend))"
  by (simp add: handleShare_def try_catch_def perform_def split: prod.splits step.splits)

lemmas observations =
  calls_def completion_def notifications_def downloads_def png_serialized_def
  svg_serialized_def share_requests_def shares_performed_def share_resolved_def

lemmas samples =
  working_platform_def desktop_platform_def stalled_desktop_platform_def
  detached_platform_def cancelling_platform_def offline_platform_def corrupt_platform_def
  example_state_def initial_state_def
  rerender_def QRCodeCanvas_props_def js_or_def

text \<open>State is written through the setters only; the text input's handler does so.\<close>

lemma onTextChange_writes:
  "run_calls st (calls (onTextChange v)) = st\<lparr>text_state := v\<rparr>"
  by (simp add: onTextChange_def perform_def calls_def run_calls_def)

subsection \<open>When a \<open>try\<close> block throws, in terms of the platform\<close>

lemma handleDownload_try_completion:
  "completion (handleDownload_try env st format) =
     (case (if format = ''PNG'' then toPng env (qrRef_current st)
            else toSvg env (qrRef_current st)) of
        Resolves u \<Rightarrow> Value ()
      | Rejects e \<Rightarrow> Throw e
      | Never \<Rightarrow> Suspend)"
  by (simp add: handleDownload_try_run completion_def split: promise.splits)

lemma handleShare_try_Throw_iff:
  "completion (handleShare_try env st) = Throw e \<longleftrightarrow>
     toPng env (qrRef_current st) = Rejects e \<or>
     (\<exists>u. toPng env (qrRef_current st) = Resolves u \<and>
        (fetch env u = Rejects e \<or>
         (\<exists>r. fetch env u = Resolves r \<and>
            (response_blob env r = Rejects e \<or>
             (\<exists>b. response_blob env r = Resolves b \<and>
                (navigator_share env = None \<and> e = ''Sharing not supported'' \<or>
                 (\<exists>share. navigator_share env = Some share \<and>
                    share \<lparr>share_files =
                             [\<lparr>file_bits = [b], file_name = ''qr-code.png'',
                               file_type = ''image/png''\<rparr>],
                           share_title = ''QR Code'',
                           share_text = ''Check out this QR code!''\<rparr> = Rejects e)))))))"
  by (auto simp add: handleShare_try_run completion_def split: promise.splits option.splits)

subsection \<open>What the \<open>catch\<close> blocks add to a run\<close>

lemma map_filter_append_calls:
  "List.map_filter f (xs @ ys) = List.map_filter f xs @ List.map_filter f ys"
  by (simp add: List.map_filter_def)

lemma handleShare_calls:
  "calls (handleShare env st) =
     calls (handleShare_try env st) @
       (case completion (handleShare_try env st) of
          Throw e \<Rightarrow> [ToastError ''Sharing failed'']
        | Value v \<Rightarrow> []
        | Suspend \<Rightarrow> [])"
  by (cases "handleShare_try env st")
    (simp add: handleShare_run calls_def completion_def split: step.split)

lemma handleShare_completion:
  "completion (handleShare env st) =
     (case completion (handleShare_try env st) of
        Throw e \<Rightarrow> Value ()
      | Value v \<Rightarrow> Value v
      | Suspend \<Rightarrow> Suspend)"
  by (cases "handleShare_try env st")
    (simp add: handleShare_run calls_def completion_def split: step.split)

lemma handleDownload_no_throw: "completion (handleDownload env st format) \<noteq> Throw e"
  by (simp add: handleDownload_run completion_def split: promise.split)

lemma handleDownload_succeeded:
  "completion (handleDownload_try env st format) = Value () \<Longrightarrow>
   completion (handleDownload env st format) = Value () \<and>
   notifications (calls (handleDownload env st format)) =
     [ToastSuccess (''Downloaded as '' @ format)]"
  by (cases "format = ''PNG''")
    (auto simp add: handleDownload_run handleDownload_try_run observations
      split: promise.splits)

lemma handleDownload_caught:
  "completion (handleDownload_try env st format) = Throw e \<Longrightarrow>
   completion (handleDownload env st format) = Value () \<and>
   notifications (calls (handleDownload env st format)) = [ToastError ''Download failed''] \<and>
   downloads (calls (handleDownload env st format)) = [] \<and>
   share_requests (calls (handleDownload env st format)) = []"
  by (cases "format = ''PNG''")
    (auto simp add: handleDownload_run handleDownload_try_run observations
      split: promise.splits)

lemma handleShare_try_quiet:
  "notifications (calls (handleShare_try env st)) = [] \<and>
   downloads (calls (handleShare_try env st)) = []"
  by (simp add: handleShare_try_run observations split: promise.split option.split)

lemma handleShare_try_unshared:
  "completion (handleShare_try env st) \<noteq> Value () \<Longrightarrow>
   shares_performed env (calls (handleShare_try env st)) = []"
  by (auto simp add: handleShare_try_run observations split: promise.splits option.splits)

lemma handleShare_no_throw: "completion (handleShare env st) \<noteq> Throw e"
  by (simp add: handleShare_completion split: step.split)

lemma handleShare_downloads: "downloads (calls (handleShare env st)) = []"
  using handleShare_try_quiet [of env st]
  by (simp add: handleShare_calls downloads_def map_filter_append_calls split: step.split)

lemma handleShare_share_requests:
  "share_requests (calls (handleShare env st)) =
     share_requests (calls (handleShare_try env st))"
  by (simp add: handleShare_calls share_requests_def map_filter_append_calls
      split: step.split)

lemma handleShare_succeeded:
  "completion (handleShare_try env st) = Value () \<Longrightarrow>
   completion (handleShare env st) = Value () \<and>
   notifications (calls (handleShare env st)) = []"
  using handleShare_try_quiet [of env st]
  by (simp add: handleShare_calls handleShare_completion)

lemma handleShare_caught:
  assumes "completion (handleShare_try env st) = Throw e"
  shows "completion (handleShare env st) = Value () \<and>
         notifications (calls (handleShare env st)) = [ToastError ''Sharing failed''] \<and>
         downloads (calls (handleShare env st)) = [] \<and>
         shares_performed env (calls (handleShare env st)) = []"
proof -
  from assms have "completion (handleShare_try env st) \<noteq> Value ()"
    by simp
  then have "shares_performed env (calls (handleShare_try env st)) = []"
    by (rule handleShare_try_unshared)
  then have sp: "shares_performed env (calls (handleShare env st)) = []"
    by (simp add: shares_performed_def handleShare_share_requests)
  have c: "completion (handleShare env st) = Value ()"
    using assms by (simp add: handleShare_completion)
  have n: "notifications (calls (handleShare env st)) = [ToastError ''Sharing failed'']"
    using assms handleShare_try_quiet [of env st]
    by (simp add: handleShare_calls notifications_def)
  have d: "downloads (calls (handleShare env st)) = []"
    by (rule handleShare_downloads)
  from c n d sp show ?thesis
    by blast
qed

lemma handleShare_pending:
  "completion (handleShare_try env st) = Suspend \<Longrightarrow>
   completion (handleShare env st) = Suspend \<and>
   notifications (calls (handleShare env st)) = []"
  using handleShare_try_quiet [of env st]
  by (simp add: handleShare_calls handleShare_completion)

text \<open>Without \<open>navigator.share\<close> the \<open>try\<close> block of \<open>handleShare\<close> stalls or throws.\<close>

lemma handleShare_try_unsupported:
  "navigator_share env = None \<Longrightarrow>
   share_requests (calls (handleShare_try env st)) = [] \<and>
   (share_prelude_pending env st \<longrightarrow> completion (handleShare_try env st) = Suspend) \<and>
   (\<not> share_prelude_pending env st \<longrightarrow>
      (\<exists>e. completion (handleShare_try env st) = Throw e))"
  by (simp add: handleShare_try_run share_prelude_pending_def observations
      split: promise.split)

lemma handleShare_try_serializers:
  "png_serialized (calls (handleShare_try env st)) = [qrRef_current st] \<and>
   svg_serialized (calls (handleShare_try env st)) = []"
  by (simp add: handleShare_try_run observations split: promise.split option.split)

lemma handleShare_serializers:
  "png_serialized (calls (handleShare env st)) = [qrRef_current st] \<and>
   svg_serialized (calls (handleShare env st)) = []"
  using handleShare_try_serializers [of env st]
  by (simp add: handleShare_calls png_serialized_def svg_serialized_def
      map_filter_append_calls split: step.split)

subsection \<open>The download handler on an argument of any type\<close>

lemma handleDownload_any_string:
  "handleDownload_any env st (JString s) = handleDownload env st s"
  by (simp add: handleDownload_any_def handleDownload_any_try_def handleDownload_def
      handleDownload_try_def)

lemma handleDownload_any_other_run:
  "(\<forall>s. format \<noteq> JString s) \<Longrightarrow>
   handleDownload_any env st format =
     (case toSvg env (qrRef_current st) of
        Resolves u \<Rightarrow> ([ToSvg (qrRef_current st), ToastError ''Download failed''], Value ())
      | Rejects e \<Rightarrow> ([ToSvg (qrRef_current st), ToastError ''Download failed''], Value ())
      | Never \<Rightarrow> ([ToSvg (qrRef_current st)], Suspend))"
  by (cases format)
    (simp_all add: handleDownload_any_def handleDownload_any_try_def andThen_def
      try_catch_def await_def perform_def throw_def split: promise.split)

lemma file_extension_prefix:
  "file_extension (''qr-code.'' @ s) = file_extension s"
proof (cases "\<forall>c \<in> set s. c \<noteq> CHR ''.''")
  case True
  then show ?thesis
    by (simp add: file_extension_def takeWhile_append takeWhile_eq_all_conv [THEN iffD2])
next
  case False
  then show ?thesis
    by (auto simp add: file_extension_def takeWhile_append)
qed

lemma handleDownload_any_serializers:
  "format \<noteq> JString ''PNG'' \<Longrightarrow>
   png_serialized (calls (handleDownload_any env st format)) = [] \<and>
   svg_serialized (calls (handleDownload_any env st format)) = [qrRef_current st]"
  by (cases format)
    (simp_all add: handleDownload_any_string handleDownload_any_other_run handleDownload_run
      observations split: promise.split)

subsection \<open>Interleavings of two runs\<close>

lemma map_filter_shuffles:
  "zs \<in> shuffles xs ys \<Longrightarrow>
   List.map_filter f zs \<in> shuffles (List.map_filter f xs) (List.map_filter f ys)"
proof (induction xs ys arbitrary: zs rule: shuffles.induct)
  case (1 ys)
  then show ?case by simp
next
  case (2 xs)
  then show ?case by simp
next
  case (3 x xs y ys)
  from "3.prems" consider
    (left) zs' where "zs = x # zs'" "zs' \<in> shuffles xs (y # ys)"
  | (right) zs' where "zs = y # zs'" "zs' \<in> shuffles (x # xs) ys"
    by auto
  then show ?case
  proof cases
    case left
    with "3.IH"(1) have "List.map_filter f zs' \<in>
        shuffles (List.map_filter f xs) (List.map_filter f (y # ys))"
      by blast
    with left show ?thesis
      by (cases "f x") (simp_all add: Cons_in_shuffles_leftI)
  next
    case right
    with "3.IH"(2) have "List.map_filter f zs' \<in>
        shuffles (List.map_filter f (x # xs)) (List.map_filter f ys)"
      by blast
    with right show ?thesis
      by (cases "f y") (simp_all add: Cons_in_shuffles_rightI)
  qed
qed

lemma filter_in_shuffles:
  "zs \<in> shuffles xs ys \<Longrightarrow> filter P zs \<in> shuffles (filter P xs) (filter P ys)"
  using filter_shuffles [of P xs ys] by blast

lemma run_calls_no_setter:
  "\<forall>c \<in> set cs. \<forall>t. apply_call t c = t \<Longrightarrow> run_calls s cs = s"
  by (induction cs arbitrary: s) (simp_all add: run_calls_def)

lemma handleDownload_calls_no_setter:
  "c \<in> set (calls (handleDownload env st format)) \<Longrightarrow> apply_call t c = t"
  by (auto simp add: handleDownload_run calls_def split: promise.splits if_splits)

subsection \<open>The runs of \<open>handleShare\<close> that end in the \<open>catch\<close> block\<close>

lemma handleShare_toPng_rejects:
  "toPng env (qrRef_current st) = Rejects e \<Longrightarrow>
   handleShare env st = ([ToPng (qrRef_current st), ToastError ''Sharing failed''], Value ())"
  by (simp add: handleShare_run handleShare_try_run)

lemma handleShare_fetch_rejects:
  "toPng env (qrRef_current st) = Resolves u \<Longrightarrow> fetch env u = Rejects e \<Longrightarrow>
   handleShare env st =
     ([ToPng (qrRef_current st), Fetch u, ToastError ''Sharing failed''], Value ())"
  by (simp add: handleShare_run handleShare_try_run)

lemma handleShare_blob_rejects:
  "toPng env (qrRef_current st) = Resolves u \<Longrightarrow> fetch env u = Resolves r \<Longrightarrow>
   response_blob env r = Rejects e \<Longrightarrow>
   handleShare env st =
     ([ToPng (qrRef_current st), Fetch u, ResponseBlob r, ToastError ''Sharing failed''],
      Value ())"
  by (simp add: handleShare_run handleShare_try_run)

lemma handleShare_share_missing:
  "toPng env (qrRef_current st) = Resolves u \<Longrightarrow> fetch env u = Resolves r \<Longrightarrow>
   response_blob env r = Resolves b \<Longrightarrow> navigator_share env = None \<Longrightarrow>
   handleShare env st =
     ([ToPng (qrRef_current st), Fetch u, ResponseBlob r, ToastError ''Sharing failed''],
      Value ())"
  by (simp add: handleShare_run handleShare_try_run)

lemma handleShare_share_rejects:
  "toPng env (qrRef_current st) = Resolves u \<Longrightarrow> fetch env u = Resolves r \<Longrightarrow>
   response_blob env r = Resolves b \<Longrightarrow> navigator_share env = Some share \<Longrightarrow>
   share \<lparr>share_files = [\<lparr>file_bits = [b], file_name = ''qr-code.png'',
                             file_type = ''image/png''\<rparr>],
          share_title = ''QR Code'', share_text = ''Check out this QR code!''\<rparr> =
     Rejects e \<Longrightarrow>
   handleShare env st =
     ([ToPng (qrRef_current st), Fetch u, ResponseBlob r,
       NavigatorShare
         \<lparr>share_files = [\<lparr>file_bits = [b], file_name = ''qr-code.png'',
                           file_type = ''image/png''\<rparr>],
          share_title = ''QR Code'', share_text = ''Check out this QR code!''\<rparr>,
       ToastError ''Sharing failed''], Value ())"
  by (simp add: handleShare_run handleShare_try_run)

lemma handleShare_share_resolves:
  "toPng env (qrRef_current st) = Resolves u \<Longrightarrow> fetch env u = Resolves r \<Longrightarrow>
   response_blob env r = Resolves b \<Longrightarrow> navigator_share env = Some share \<Longrightarrow>
   share \<lparr>share_files = [\<lparr>file_bits = [b], file_name = ''qr-code.png'',
                             file_type = ''image/png''\<rparr>],
          share_title = ''QR Code'', share_text = ''Check out this QR code!''\<rparr> =
     Resolves () \<Longrightarrow>
   handleShare env st =
     ([ToPng (qrRef_current st), Fetch u, ResponseBlob r,
       NavigatorShare
         \<lparr>share_files = [\<lparr>file_bits = [b], file_name = ''qr-code.png'',
                           file_type = ''image/png''\<rparr>],
          share_title = ''QR Code'', share_text = ''Check out this QR code!''\<rparr>],
      Value ())"
  by (simp add: handleShare_run handleShare_try_run)

lemma handleDownload_rejects:
  "(if format = ''PNG'' then toPng env (qrRef_current st)
    else toSvg env (qrRef_current st)) = Rejects e \<Longrightarrow>
   handleDownload env st format =
     ([if format = ''PNG'' then ToPng (qrRef_current st) else ToSvg (qrRef_current st),
       ToastError ''Download failed''], Value ())"
  by (simp add: handleDownload_run)

lemma handleDownload_resolves:
  "(if format = ''PNG'' then toPng env (qrRef_current st)
    else toSvg env (qrRef_current st)) = Resolves u \<Longrightarrow>
   handleDownload env st format =
     ([if format = ''PNG'' then ToPng (qrRef_current st) else ToSvg (qrRef_current st),
       LinkClick \<lparr>download = ''qr-code.'' @ toLowerCase format, href = u\<rparr>,
       ToastSuccess (''Downloaded as '' @ format)], Value ())"
  by (simp add: handleDownload_run)

section \<open>The claims\<close>

subsection \<open>C5: the concrete PNG export\<close>

text \<open>
  C5. With the text \<open>https://example.com\<close>, size 256, level \<open>L\<close> and the margin
  included (any colours, any theme), a \<open>handleDownload('PNG')\<close> whose PNG serialization
  resolves with a data URL \<open>u\<close> serializes the node rendered from those parameters,
  clicks a link whose \<open>download\<close> name is exactly \<open>qr-code.png\<close> and whose target is
  \<open>u\<close>, shows the success toast \<open>Downloaded as PNG\<close>, makes no other call and completes.
\<close>

theorem example_download_png:
  assumes "st = rerender
             \<lparr>text_state = ''https://example.com'', size_state = 256,
              fgColor_state = fg, bgColor_state = bg, level_state = ''L'',
              includeMargin_state = True, darkMode_state = dm, qrRef_current = r\<rparr>"
    and "toPng env (qrRef_current st) = Resolves u"
  shows "completion (handleDownload env st ''PNG'') = Value () \<and>
         calls (handleDownload env st ''PNG'') =
           [ToPng (Some \<lparr>value_prop = ''https://example.com'', size_prop = 256,
                         level_prop = ''L'', includeMargin_prop = True,
                         fgColor_prop = fg, bgColor_prop = bg\<rparr>),
            LinkClick \<lparr>download = ''qr-code.png'', href = u\<rparr>,
            ToastSuccess ''Downloaded as PNG'']"
  using assms
  by (simp add: handleDownload_run toLowerCase_PNG calls_def completion_def rerender_def
      QRCodeCanvas_props_def js_or_def)

theorem example_download_png_witness:
  "example_state = rerender
             \<lparr>text_state = ''https://example.com'', size_state = 256,
              fgColor_state = ''#000000'', bgColor_state = ''#ffffff'', level_state = ''L'',
              includeMargin_state = True, darkMode_state = False, qrRef_current = None\<rparr> \<and>
   toPng working_platform (qrRef_current example_state) =
     Resolves ''data:image/png;base64,iVBORw0KGgo='' \<and>
   completion (handleDownload working_platform example_state ''PNG'') = Value () \<and>
   calls (handleDownload working_platform example_state ''PNG'') =
           [ToPng (Some \<lparr>value_prop = ''https://example.com'', size_prop = 256,
                         level_prop = ''L'', includeMargin_prop = True,
                         fgColor_prop = ''#000000'', bgColor_prop = ''#ffffff''\<rparr>),
            LinkClick \<lparr>download = ''qr-code.png'',
                       href = ''data:image/png;base64,iVBORw0KGgo=''\<rparr>,
            ToastSuccess ''Downloaded as PNG'']"
proof -
  have s: "example_state = rerender
             \<lparr>text_state = ''https://example.com'', size_state = 256,
              fgColor_state = ''#000000'', bgColor_state = ''#ffffff'', level_state = ''L'',
              includeMargin_state = True, darkMode_state = False, qrRef_current = None\<rparr>"
    by (simp add: example_state_def)
  have p: "toPng working_platform (qrRef_current example_state) =
             Resolves ''data:image/png;base64,iVBORw0KGgo=''"
    by (simp add: working_platform_def)
  show ?thesis
    using s p example_download_png [OF s p] by simp
qed

subsection \<open>C7: the download handler writes no state\<close>

text \<open>
  C7. \<open>handleDownload\<close> never modifies application state: whatever the platform answers
  and whatever the format, none of the calls it makes is a state setter, so replaying its
  calls on any state \<open>st'\<close> (the state at the time of the click, or one edited while the
  export was pending) leaves \<open>text\<close>, \<open>size\<close>, \<open>fgColor\<close>, \<open>bgColor\<close>, \<open>level\<close>,
  \<open>includeMargin\<close>, \<open>darkMode\<close> and \<open>qrRef.current\<close> as they were.
\<close>

theorem handleDownload_frame:
  "run_calls st' (calls (handleDownload env st format)) = st'"
  by (simp add: handleDownload_run calls_def run_calls_def split: promise.splits)

subsection \<open>C4: each button uses its own serializer and its own extension\<close>

text \<open>
  C4. For every state (so for every valid set of encoding parameters) and every platform,
  \<open>handleDownload('PNG')\<close> calls the PNG serializer once, on \<open>qrRef.current\<close>, and never
  the SVG serializer; every file it downloads is named \<open>qr-code.png\<close>, and it downloads
  exactly that file when the serialization resolves. \<open>handleDownload('SVG')\<close> does the
  same with the SVG serializer and the name \<open>qr-code.svg\<close>, and never calls the PNG
  serializer.
\<close>

theorem download_format_paths:
  "png_serialized (calls (handleDownload env st ''PNG'')) = [qrRef_current st] \<and>
   svg_serialized (calls (handleDownload env st ''PNG'')) = [] \<and>
   (\<forall>l \<in> set (downloads (calls (handleDownload env st ''PNG''))).
      download l = ''qr-code.png'') \<and>
   (toPng env (qrRef_current st) = Resolves u \<longrightarrow>
      downloads (calls (handleDownload env st ''PNG'')) =
        [\<lparr>download = ''qr-code.png'', href = u\<rparr>]) \<and>
   svg_serialized (calls (handleDownload env st ''SVG'')) = [qrRef_current st] \<and>
   png_serialized (calls (handleDownload env st ''SVG'')) = [] \<and>
   (\<forall>l \<in> set (downloads (calls (handleDownload env st ''SVG''))).
      download l = ''qr-code.svg'') \<and>
   (toSvg env (qrRef_current st) = Resolves v \<longrightarrow>
      downloads (calls (handleDownload env st ''SVG'')) =
        [\<lparr>download = ''qr-code.svg'', href = v\<rparr>])"
  by (simp add: handleDownload_run toLowerCase_PNG toLowerCase_SVG observations
      split: promise.splits)

theorem download_format_paths_witness:
  "toPng working_platform (qrRef_current example_state) =
     Resolves ''data:image/png;base64,iVBORw0KGgo='' \<and>
   downloads (calls (handleDownload working_platform example_state ''PNG'')) =
     [\<lparr>download = ''qr-code.png'', href = ''data:image/png;base64,iVBORw0KGgo=''\<rparr>] \<and>
   toSvg working_platform (qrRef_current example_state) =
     Resolves ''data:image/svg+xml;charset=utf-8,svg'' \<and>
   downloads (calls (handleDownload working_platform example_state ''SVG'')) =
     [\<lparr>download = ''qr-code.svg'', href = ''data:image/svg+xml;charset=utf-8,svg''\<rparr>]"
  using download_format_paths [of working_platform example_state
      "''data:image/png;base64,iVBORw0KGgo=''" "''data:image/svg+xml;charset=utf-8,svg''"]
  by (simp add: working_platform_def)

subsection \<open>C3: sharing on a platform without \<open>navigator.share\<close>\<close>

text \<open>
  C3. On a platform where \<open>navigator.share\<close> is undefined, every \<open>handleShare\<close>
  whose awaited serialization, \<open>fetch\<close> and \<open>blob\<close> conversion settle completes with
  exactly one notification, the failure message \<open>Sharing failed\<close>: never a silent
  success. On such a platform \<open>handleShare\<close> never clicks a download link and never
  calls \<open>navigator.share\<close>, so no file is produced. (A promise that never settles leaves
  the handler pending with nothing shown; the specification places that case outside the
  contract.)
\<close>

theorem share_unsupported:
  assumes "navigator_share env = None"
  shows "completion (handleShare env st) =
           (if share_prelude_pending env st then Suspend else Value ()) \<and>
         notifications (calls (handleShare env st)) =
           (if share_prelude_pending env st then [] else [ToastError ''Sharing failed'']) \<and>
         downloads (calls (handleShare env st)) = [] \<and>
         share_requests (calls (handleShare env st)) = []"
proof (cases "share_prelude_pending env st")
  case True
  with assms have "completion (handleShare_try env st) = Suspend"
    by (simp add: handleShare_try_unsupported)
  with True assms show ?thesis
    by (simp add: handleShare_pending handleShare_downloads handleShare_share_requests
        handleShare_try_unsupported)
next
  case False
  with assms obtain e where "completion (handleShare_try env st) = Throw e"
    using handleShare_try_unsupported [of env st] by blast
  with False assms show ?thesis
    by (simp add: handleShare_caught handleShare_share_requests
        handleShare_try_unsupported)
qed

theorem share_unsupported_witness:
  "navigator_share desktop_platform = None \<and>
   \<not> share_prelude_pending desktop_platform example_state \<and>
   completion (handleShare desktop_platform example_state) = Value () \<and>
   notifications (calls (handleShare desktop_platform example_state)) =
     [ToastError ''Sharing failed''] \<and>
   downloads (calls (handleShare desktop_platform example_state)) = [] \<and>
   share_requests (calls (handleShare desktop_platform example_state)) = []"
proof -
  have n: "navigator_share desktop_platform = None"
    by (simp add: desktop_platform_def)
  have p: "\<not> share_prelude_pending desktop_platform example_state"
    by (simp add: share_prelude_pending_def desktop_platform_def working_platform_def)
  show ?thesis
    using n p share_unsupported [OF n, of example_state] by simp
qed

subsection \<open>C6: what is shared\<close>

text \<open>
  C6. \<open>handleShare\<close> calls the PNG serializer once, on \<open>qrRef.current\<close>, and never the
  SVG serializer. When serialization, \<open>fetch\<close> and \<open>blob\<close> resolve and \<open>navigator.share\<close>
  exists, it invokes \<open>navigator.share\<close> exactly once, with one file that holds the blob,
  is named \<open>qr-code.png\<close> and has type \<open>image/png\<close>, with the title \<open>QR Code\<close> and the
  text \<open>Check out this QR code!\<close>; and every share it requests has this shape, the blob
  being the one obtained from the PNG data URL.
\<close>

theorem share_payload:
  "png_serialized (calls (handleShare env st)) = [qrRef_current st] \<and>
   svg_serialized (calls (handleShare env st)) = [] \<and>
   (toPng env (qrRef_current st) = Resolves u \<and> fetch env u = Resolves r \<and>
    response_blob env r = Resolves b \<and> navigator_share env = Some share \<longrightarrow>
      share_requests (calls (handleShare env st)) =
        [\<lparr>share_files = [\<lparr>file_bits = [b], file_name = ''qr-code.png'',
                          file_type = ''image/png''\<rparr>],
          share_title = ''QR Code'', share_text = ''Check out this QR code!''\<rparr>]) \<and>
   (d \<in> set (share_requests (calls (handleShare env st))) \<longrightarrow>
      (\<exists>u' r' b'. toPng env (qrRef_current st) = Resolves u' \<and>
         fetch env u' = Resolves r' \<and> response_blob env r' = Resolves b' \<and>
         d = \<lparr>share_files = [\<lparr>file_bits = [b'], file_name = ''qr-code.png'',
                               file_type = ''image/png''\<rparr>],
               share_title = ''QR Code'', share_text = ''Check out this QR code!''\<rparr>))"
proof -
  have "d \<in> set (share_requests (calls (handleShare_try env st))) \<longrightarrow>
      (\<exists>u' r' b'. toPng env (qrRef_current st) = Resolves u' \<and>
         fetch env u' = Resolves r' \<and> response_blob env r' = Resolves b' \<and>
         d = \<lparr>share_files = [\<lparr>file_bits = [b'], file_name = ''qr-code.png'',
                               file_type = ''image/png''\<rparr>],
               share_title = ''QR Code'', share_text = ''Check out this QR code!''\<rparr>)"
    by (simp add: handleShare_try_run observations split: promise.split option.split)
  moreover have "toPng env (qrRef_current st) = Resolves u \<and> fetch env u = Resolves r \<and>
    response_blob env r = Resolves b \<and> navigator_share env = Some share \<longrightarrow>
      share_requests (calls (handleShare_try env st)) =
        [\<lparr>share_files = [\<lparr>file_bits = [b], file_name = ''qr-code.png'',
                          file_type = ''image/png''\<rparr>],
          share_title = ''QR Code'', share_text = ''Check out this QR code!''\<rparr>]"
    by (simp add: handleShare_try_run observations)
  ultimately show ?thesis
    by (simp add: handleShare_serializers handleShare_share_requests)
qed

theorem share_payload_witness:
  "toPng working_platform (qrRef_current example_state) =
     Resolves ''data:image/png;base64,iVBORw0KGgo='' \<and>
   fetch working_platform ''data:image/png;base64,iVBORw0KGgo='' = Resolves (Response 200) \<and>
   response_blob working_platform (Response 200) = Resolves [137, 80, 78, 71] \<and>
   navigator_share working_platform = Some (\<lambda>d. Resolves ()) \<and>
   share_requests (calls (handleShare working_platform example_state)) =
     [\<lparr>share_files = [\<lparr>file_bits = [[137, 80, 78, 71]], file_name = ''qr-code.png'',
                       file_type = ''image/png''\<rparr>],
       share_title = ''QR Code'', share_text = ''Check out this QR code!''\<rparr>] \<and>
   \<lparr>share_files = [\<lparr>file_bits = [[137, 80, 78, 71]], file_name = ''qr-code.png'',
                     file_type = ''image/png''\<rparr>],
     share_title = ''QR Code'', share_text = ''Check out this QR code!''\<rparr>
     \<in> set (share_requests (calls (handleShare working_platform example_state)))"
proof -
  have t: "toPng working_platform (qrRef_current example_state) =
             Resolves ''data:image/png;base64,iVBORw0KGgo='' \<and>
           fetch working_platform ''data:image/png;base64,iVBORw0KGgo='' =
             Resolves (Response 200) \<and>
           response_blob working_platform (Response 200) = Resolves [137, 80, 78, 71] \<and>
           navigator_share working_platform = Some (\<lambda>d. Resolves ())"
    by (simp add: working_platform_def)
  from share_payload [of working_platform example_state
        "''data:image/png;base64,iVBORw0KGgo=''" "Response 200" "[137, 80, 78, 71]"
        "\<lambda>d. Resolves ()" "\<lparr>share_files = [\<lparr>file_bits = [[137, 80, 78, 71]],
                           file_name = ''qr-code.png'', file_type = ''image/png''\<rparr>],
          share_title = ''QR Code'', share_text = ''Check out this QR code!''\<rparr>"]
  have "toPng working_platform (qrRef_current example_state) =
             Resolves ''data:image/png;base64,iVBORw0KGgo='' \<and>
           fetch working_platform ''data:image/png;base64,iVBORw0KGgo='' =
             Resolves (Response 200) \<and>
           response_blob working_platform (Response 200) = Resolves [137, 80, 78, 71] \<and>
           navigator_share working_platform = Some (\<lambda>d. Resolves ()) \<longrightarrow>
        share_requests (calls (handleShare working_platform example_state)) =
          [\<lparr>share_files = [\<lparr>file_bits = [[137, 80, 78, 71]], file_name = ''qr-code.png'',
                       file_type = ''image/png''\<rparr>],
            share_title = ''QR Code'', share_text = ''Check out this QR code!''\<rparr>]"
    by blast
  with t have r: "share_requests (calls (handleShare working_platform example_state)) =
          [\<lparr>share_files = [\<lparr>file_bits = [[137, 80, 78, 71]], file_name = ''qr-code.png'',
                       file_type = ''image/png''\<rparr>],
            share_title = ''QR Code'', share_text = ''Check out this QR code!''\<rparr>]"
    by blast
  then have "\<lparr>share_files = [\<lparr>file_bits = [[137, 80, 78, 71]], file_name = ''qr-code.png'',
                     file_type = ''image/png''\<rparr>],
     share_title = ''QR Code'', share_text = ''Check out this QR code!''\<rparr>
     \<in> set (share_requests (calls (handleShare working_platform example_state)))"
    by (simp only: list.set insertI1)
  with t r show ?thesis
    by blast
qed

subsection \<open>C1: a notification for every attempt\<close>

text \<open>
  C1. Every export and every share attempt ends with a user-visible notification, a
  success or a failure message, never silently. \<open>handleDownload\<close> does so: on success
  it shows \<open>Downloaded as PNG\<close> (line 28). \<open>handleShare\<close> does not: on a platform where
  serialization, \<open>fetch\<close>, \<open>blob\<close> and \<open>navigator.share\<close> all resolve it completes, the
  share has been performed, and no notification was shown, since lines 40 to 45 are
  followed by no \<open>toast.success\<close>.
\<close>

theorem handleShare_success_is_silent:
  "notifications (calls (handleDownload working_platform example_state ''PNG'')) =
     [ToastSuccess ''Downloaded as PNG''] \<and>
   completion (handleShare working_platform example_state) = Value () \<and>
   shares_performed working_platform (calls (handleShare working_platform example_state)) =
     [\<lparr>share_files = [\<lparr>file_bits = [[137, 80, 78, 71]], file_name = ''qr-code.png'',
                       file_type = ''image/png''\<rparr>],
       share_title = ''QR Code'', share_text = ''Check out this QR code!''\<rparr>] \<and>
   notifications (calls (handleShare working_platform example_state)) = []"
  by (simp add: handleDownload_run handleShare_run handleShare_try_run observations
      working_platform_def toLowerCase_PNG)

subsection \<open>C2: every error is caught\<close>

text \<open>
  C2, as stated, promises zero share side effects on every failing path, the rejection of
  the share call included. An error raised by the share call can only come after
  \<open>navigator.share\<close> has been invoked: where the user dismisses the share sheet, the
  handler ends with its one failure notification, and the share request has been made.
\<close>

theorem rejected_share_was_requested_counterexample:
  "navigator_share cancelling_platform \<noteq> None \<and>
   completion (handleShare cancelling_platform example_state) = Value () \<and>
   notifications (calls (handleShare cancelling_platform example_state)) =
     [ToastError ''Sharing failed''] \<and>
   share_requests (calls (handleShare cancelling_platform example_state)) =
     [\<lparr>share_files = [\<lparr>file_bits = [[137, 80, 78, 71]], file_name = ''qr-code.png'',
                       file_type = ''image/png''\<rparr>],
       share_title = ''QR Code'', share_text = ''Check out this QR code!''\<rparr>]"
  by (simp add: handleShare_run handleShare_try_run observations working_platform_def
      cancelling_platform_def)

text \<open>
  C2, amended. Neither handler ever completes by throwing, whatever the platform answers.
  When the serializer of \<open>handleDownload\<close> rejects, the handler completes normally with
  exactly one notification, \<open>Download failed\<close>, clicks no link and requests no share.
  When, in \<open>handleShare\<close>, the PNG serializer, \<open>fetch\<close> or the \<open>blob\<close> conversion
  rejects, or \<open>navigator.share\<close> is undefined, the handler completes normally with
  exactly one notification, \<open>Sharing failed\<close>, clicks no link and never calls
  \<open>navigator.share\<close>. When the share call itself rejects, the handler completes normally
  with exactly one notification, \<open>Sharing failed\<close>, and clicks no link; the rejected call
  is the only share request made, and no share has been performed.
\<close>

theorem errors_caught:
  "completion (handleDownload env st format) \<noteq> Throw x \<and>
   completion (handleShare env st) \<noteq> Throw x \<and>
   ((if format = ''PNG'' then toPng env (qrRef_current st)
     else toSvg env (qrRef_current st)) = Rejects e \<longrightarrow>
      completion (handleDownload env st format) = Value () \<and>
      notifications (calls (handleDownload env st format)) =
        [ToastError ''Download failed''] \<and>
      downloads (calls (handleDownload env st format)) = [] \<and>
      share_requests (calls (handleDownload env st format)) = []) \<and>
   (toPng env (qrRef_current st) = Rejects e \<longrightarrow>
      completion (handleShare env st) = Value () \<and>
      notifications (calls (handleShare env st)) = [ToastError ''Sharing failed''] \<and>
      downloads (calls (handleShare env st)) = [] \<and>
      share_requests (calls (handleShare env st)) = []) \<and>
   (toPng env (qrRef_current st) = Resolves u \<and> fetch env u = Rejects e \<longrightarrow>
      completion (handleShare env st) = Value () \<and>
      notifications (calls (handleShare env st)) = [ToastError ''Sharing failed''] \<and>
      downloads (calls (handleShare env st)) = [] \<and>
      share_requests (calls (handleShare env st)) = []) \<and>
   (toPng env (qrRef_current st) = Resolves u \<and> fetch env u = Resolves r \<and>
    response_blob env r = Rejects e \<longrightarrow>
      completion (handleShare env st) = Value () \<and>
      notifications (calls (handleShare env st)) = [ToastError ''Sharing failed''] \<and>
      downloads (calls (handleShare env st)) = [] \<and>
      share_requests (calls (handleShare env st)) = []) \<and>
   (toPng env (qrRef_current st) = Resolves u \<and> fetch env u = Resolves r \<and>
    response_blob env r = Resolves b \<and> navigator_share env = None \<longrightarrow>
      completion (handleShare env st) = Value () \<and>
      notifications (calls (handleShare env st)) = [ToastError ''Sharing failed''] \<and>
      downloads (calls (handleShare env st)) = [] \<and>
      share_requests (calls (handleShare env st)) = []) \<and>
   (toPng env (qrRef_current st) = Resolves u \<and> fetch env u = Resolves r \<and>
    response_blob env r = Resolves b \<and> navigator_share env = Some share \<and>
    share \<lparr>share_files = [\<lparr>file_bits = [b], file_name = ''qr-code.png'',
                              file_type = ''image/png''\<rparr>],
           share_title = ''QR Code'', share_text = ''Check out this QR code!''\<rparr> =
      Rejects e \<longrightarrow>
      completion (handleShare env st) = Value () \<and>
      notifications (calls (handleShare env st)) = [ToastError ''Sharing failed''] \<and>
      downloads (calls (handleShare env st)) = [] \<and>
      share_requests (calls (handleShare env st)) =
        [\<lparr>share_files = [\<lparr>file_bits = [b], file_name = ''qr-code.png'',
                          file_type = ''image/png''\<rparr>],
          share_title = ''QR Code'', share_text = ''Check out this QR code!''\<rparr>] \<and>
      shares_performed env (calls (handleShare env st)) = [])"
proof -
  have d: "(if format = ''PNG'' then toPng env (qrRef_current st)
     else toSvg env (qrRef_current st)) = Rejects e \<longrightarrow>
      completion (handleDownload env st format) = Value () \<and>
      notifications (calls (handleDownload env st format)) =
        [ToastError ''Download failed''] \<and>
      downloads (calls (handleDownload env st format)) = [] \<and>
      share_requests (calls (handleDownload env st format)) = []"
    by (simp add: handleDownload_rejects observations)
  have s1: "toPng env (qrRef_current st) = Rejects e \<longrightarrow>
      completion (handleShare env st) = Value () \<and>
      notifications (calls (handleShare env st)) = [ToastError ''Sharing failed''] \<and>
      downloads (calls (handleShare env st)) = [] \<and>
      share_requests (calls (handleShare env st)) = []"
    by (simp add: handleShare_toPng_rejects observations)
  have s2: "toPng env (qrRef_current st) = Resolves u \<and> fetch env u = Rejects e \<longrightarrow>
      completion (handleShare env st) = Value () \<and>
      notifications (calls (handleShare env st)) = [ToastError ''Sharing failed''] \<and>
      downloads (calls (handleShare env st)) = [] \<and>
      share_requests (calls (handleShare env st)) = []"
    by (simp add: handleShare_fetch_rejects observations)
  have s3: "toPng env (qrRef_current st) = Resolves u \<and> fetch env u = Resolves r \<and>
    response_blob env r = Rejects e \<longrightarrow>
      completion (handleShare env st) = Value () \<and>
      notifications (calls (handleShare env st)) = [ToastError ''Sharing failed''] \<and>
      downloads (calls (handleShare env st)) = [] \<and>
      share_requests (calls (handleShare env st)) = []"
    by (simp add: handleShare_blob_rejects observations)
  have s4: "toPng env (qrRef_current st) = Resolves u \<and> fetch env u = Resolves r \<and>
    response_blob env r = Resolves b \<and> navigator_share env = None \<longrightarrow>
      completion (handleShare env st) = Value () \<and>
      notifications (calls (handleShare env st)) = [ToastError ''Sharing failed''] \<and>
      downloads (calls (handleShare env st)) = [] \<and>
      share_requests (calls (handleShare env st)) = []"
    by (simp add: handleShare_share_missing observations)
  have s5: "toPng env (qrRef_current st) = Resolves u \<and> fetch env u = Resolves r \<and>
    response_blob env r = Resolves b \<and> navigator_share env = Some share \<and>
    share \<lparr>share_files = [\<lparr>file_bits = [b], file_name = ''qr-code.png'',
                              file_type = ''image/png''\<rparr>],
           share_title = ''QR Code'', share_text = ''Check out this QR code!''\<rparr> =
      Rejects e \<longrightarrow>
      completion (handleShare env st) = Value () \<and>
      notifications (calls (handleShare env st)) = [ToastError ''Sharing failed''] \<and>
      downloads (calls (handleShare env st)) = [] \<and>
      share_requests (calls (handleShare env st)) =
        [\<lparr>share_files = [\<lparr>file_bits = [b], file_name = ''qr-code.png'',
                          file_type = ''image/png''\<rparr>],
          share_title = ''QR Code'', share_text = ''Check out this QR code!''\<rparr>] \<and>
      shares_performed env (calls (handleShare env st)) = []"
    by (simp add: handleShare_share_rejects observations)
  from d s1 s2 s3 s4 s5 handleDownload_no_throw [of env st format x]
    handleShare_no_throw [of env st x]
  show ?thesis
    by blast
qed

theorem errors_caught_witness:
  "toSvg detached_platform (qrRef_current example_state) = Rejects ''detached'' \<and>
   notifications (calls (handleDownload detached_platform example_state ''SVG'')) =
     [ToastError ''Download failed''] \<and>
   downloads (calls (handleDownload detached_platform example_state ''SVG'')) = [] \<and>
   toPng detached_platform (qrRef_current example_state) = Rejects ''detached'' \<and>
   notifications (calls (handleShare detached_platform example_state)) =
     [ToastError ''Sharing failed''] \<and>
   share_requests (calls (handleShare detached_platform example_state)) = [] \<and>
   fetch offline_platform ''data:image/png;base64,iVBORw0KGgo='' = Rejects ''NetworkError'' \<and>
   notifications (calls (handleShare offline_platform example_state)) =
     [ToastError ''Sharing failed''] \<and>
   share_requests (calls (handleShare offline_platform example_state)) = [] \<and>
   response_blob corrupt_platform (Response 200) = Rejects ''TypeError'' \<and>
   notifications (calls (handleShare corrupt_platform example_state)) =
     [ToastError ''Sharing failed''] \<and>
   share_requests (calls (handleShare corrupt_platform example_state)) = [] \<and>
   navigator_share desktop_platform = None \<and>
   notifications (calls (handleShare desktop_platform example_state)) =
     [ToastError ''Sharing failed''] \<and>
   share_requests (calls (handleShare desktop_platform example_state)) = [] \<and>
   navigator_share cancelling_platform = Some (\<lambda>d. Rejects ''AbortError'') \<and>
   notifications (calls (handleShare cancelling_platform example_state)) =
     [ToastError ''Sharing failed''] \<and>
   shares_performed cancelling_platform
     (calls (handleShare cancelling_platform example_state)) = []"
proof -
  have p: "toSvg detached_platform (qrRef_current example_state) = Rejects ''detached''"
    "toPng detached_platform (qrRef_current example_state) = Rejects ''detached''"
    "toPng offline_platform (qrRef_current example_state) =
       Resolves ''data:image/png;base64,iVBORw0KGgo=''"
    "fetch offline_platform ''data:image/png;base64,iVBORw0KGgo='' = Rejects ''NetworkError''"
    "toPng corrupt_platform (qrRef_current example_state) =
       Resolves ''data:image/png;base64,iVBORw0KGgo=''"
    "fetch corrupt_platform ''data:image/png;base64,iVBORw0KGgo='' = Resolves (Response 200)"
    "response_blob corrupt_platform (Response 200) = Rejects ''TypeError''"
    "toPng desktop_platform (qrRef_current example_state) =
       Resolves ''data:image/png;base64,iVBORw0KGgo=''"
    "fetch desktop_platform ''data:image/png;base64,iVBORw0KGgo='' = Resolves (Response 200)"
    "response_blob desktop_platform (Response 200) = Resolves [137, 80, 78, 71]"
    "navigator_share desktop_platform = None"
    "toPng cancelling_platform (qrRef_current example_state) =
       Resolves ''data:image/png;base64,iVBORw0KGgo=''"
    "fetch cancelling_platform ''data:image/png;base64,iVBORw0KGgo='' =
       Resolves (Response 200)"
    "response_blob cancelling_platform (Response 200) = Resolves [137, 80, 78, 71]"
    "navigator_share cancelling_platform = Some (\<lambda>d. Rejects ''AbortError'')"
    by (simp_all add: working_platform_def detached_platform_def offline_platform_def
        corrupt_platform_def desktop_platform_def cancelling_platform_def)
  have q: "''SVG'' \<noteq> ''PNG''"
    by simp
  note a = errors_caught [where env = detached_platform and st = example_state
      and format = "''SVG''" and e = "''detached''"]
  note b = errors_caught [where env = offline_platform and st = example_state
      and u = "''data:image/png;base64,iVBORw0KGgo=''" and e = "''NetworkError''"]
  note c = errors_caught [where env = corrupt_platform and st = example_state
      and u = "''data:image/png;base64,iVBORw0KGgo=''" and r = "Response 200"
      and e = "''TypeError''"]
  note d = errors_caught [where env = desktop_platform and st = example_state
      and u = "''data:image/png;base64,iVBORw0KGgo=''" and r = "Response 200"
      and b = "[137, 80, 78, 71]"]
  note e = errors_caught [where env = cancelling_platform and st = example_state
      and u = "''data:image/png;base64,iVBORw0KGgo=''" and r = "Response 200"
      and b = "[137, 80, 78, 71]" and share = "\<lambda>d. Rejects ''AbortError''"
      and e = "''AbortError''"]
  from p q a have a': "notifications (calls (handleDownload detached_platform example_state ''SVG'')) =
     [ToastError ''Download failed''] \<and>
   downloads (calls (handleDownload detached_platform example_state ''SVG'')) = [] \<and>
   notifications (calls (handleShare detached_platform example_state)) =
     [ToastError ''Sharing failed''] \<and>
   share_requests (calls (handleShare detached_platform example_state)) = []"
    by (simp only: if_False)
  from p b have b': "notifications (calls (handleShare offline_platform example_state)) =
     [ToastError ''Sharing failed''] \<and>
   share_requests (calls (handleShare offline_platform example_state)) = []"
    by blast
  from p c have c': "notifications (calls (handleShare corrupt_platform example_state)) =
     [ToastError ''Sharing failed''] \<and>
   share_requests (calls (handleShare corrupt_platform example_state)) = []"
    by blast
  from p d have d': "notifications (calls (handleShare desktop_platform example_state)) =
     [ToastError ''Sharing failed''] \<and>
   share_requests (calls (handleShare desktop_platform example_state)) = []"
    by blast
  from p e have e': "notifications (calls (handleShare cancelling_platform example_state)) =
     [ToastError ''Sharing failed''] \<and>
   shares_performed cancelling_platform
     (calls (handleShare cancelling_platform example_state)) = []"
    by blast
  from p a' b' c' d' e' show ?thesis
    by blast
qed

subsection \<open>C8: two downloads in flight\<close>

text \<open>
  C8. When \<open>handleDownload\<close> is triggered a second time while a first invocation is
  pending, the calls of the two invocations interleave in some order. For every such
  interleaving \<open>zs\<close> of the two runs (each with its own format, state at the click and
  platform answers): replaying \<open>zs\<close> on any application state leaves it unchanged, so
  no state is written by either operation, let alone by both; the notifications and the
  downloads of \<open>zs\<close> are interleavings of each run's own; neither run ends by throwing;
  and each run whose serializer settles completes with its own outcome, one success
  notification and one download when its serializer resolved, one failure notification
  and no download when it rejected, whatever the other run does.
\<close>

theorem concurrent_downloads_independent:
  "(\<forall>zs \<in> shuffles (calls (handleDownload env1 st1 format1))
                    (calls (handleDownload env2 st2 format2)).
      run_calls s zs = s \<and>
      notifications zs \<in>
        shuffles (notifications (calls (handleDownload env1 st1 format1)))
                 (notifications (calls (handleDownload env2 st2 format2))) \<and>
      downloads zs \<in>
        shuffles (downloads (calls (handleDownload env1 st1 format1)))
                 (downloads (calls (handleDownload env2 st2 format2)))) \<and>
   completion (handleDownload env1 st1 format1) \<noteq> Throw x \<and>
   completion (handleDownload env2 st2 format2) \<noteq> Throw x \<and>
   ((if format1 = ''PNG'' then toPng env1 (qrRef_current st1)
     else toSvg env1 (qrRef_current st1)) = Resolves u1 \<longrightarrow>
      completion (handleDownload env1 st1 format1) = Value () \<and>
      notifications (calls (handleDownload env1 st1 format1)) =
        [ToastSuccess (''Downloaded as '' @ format1)] \<and>
      downloads (calls (handleDownload env1 st1 format1)) =
        [\<lparr>download = ''qr-code.'' @ toLowerCase format1, href = u1\<rparr>]) \<and>
   ((if format1 = ''PNG'' then toPng env1 (qrRef_current st1)
     else toSvg env1 (qrRef_current st1)) = Rejects e1 \<longrightarrow>
      completion (handleDownload env1 st1 format1) = Value () \<and>
      notifications (calls (handleDownload env1 st1 format1)) =
        [ToastError ''Download failed''] \<and>
      downloads (calls (handleDownload env1 st1 format1)) = []) \<and>
   ((if format2 = ''PNG'' then toPng env2 (qrRef_current st2)
     else toSvg env2 (qrRef_current st2)) = Resolves u2 \<longrightarrow>
      completion (handleDownload env2 st2 format2) = Value () \<and>
      notifications (calls (handleDownload env2 st2 format2)) =
        [ToastSuccess (''Downloaded as '' @ format2)] \<and>
      downloads (calls (handleDownload env2 st2 format2)) =
        [\<lparr>download = ''qr-code.'' @ toLowerCase format2, href = u2\<rparr>]) \<and>
   ((if format2 = ''PNG'' then toPng env2 (qrRef_current st2)
     else toSvg env2 (qrRef_current st2)) = Rejects e2 \<longrightarrow>
      completion (handleDownload env2 st2 format2) = Value () \<and>
      notifications (calls (handleDownload env2 st2 format2)) =
        [ToastError ''Download failed''] \<and>
      downloads (calls (handleDownload env2 st2 format2)) = [])"
proof -
  have inter: "\<forall>zs \<in> shuffles (calls (handleDownload env1 st1 format1))
                    (calls (handleDownload env2 st2 format2)).
      run_calls s zs = s \<and>
      notifications zs \<in>
        shuffles (notifications (calls (handleDownload env1 st1 format1)))
                 (notifications (calls (handleDownload env2 st2 format2))) \<and>
      downloads zs \<in>
        shuffles (downloads (calls (handleDownload env1 st1 format1)))
                 (downloads (calls (handleDownload env2 st2 format2)))"
  proof
    fix zs
    assume zs: "zs \<in> shuffles (calls (handleDownload env1 st1 format1))
                    (calls (handleDownload env2 st2 format2))"
    then have "set zs = set (calls (handleDownload env1 st1 format1)) \<union>
                 set (calls (handleDownload env2 st2 format2))"
      by (rule set_shuffles)
    then have "\<forall>c \<in> set zs. \<forall>t. apply_call t c = t"
      by (auto simp add: handleDownload_calls_no_setter)
    then have "run_calls s zs = s"
      by (rule run_calls_no_setter)
    moreover from zs have "notifications zs \<in>
        shuffles (notifications (calls (handleDownload env1 st1 format1)))
                 (notifications (calls (handleDownload env2 st2 format2)))"
      unfolding notifications_def by (rule filter_in_shuffles)
    moreover from zs have "downloads zs \<in>
        shuffles (downloads (calls (handleDownload env1 st1 format1)))
                 (downloads (calls (handleDownload env2 st2 format2)))"
      unfolding downloads_def by (rule map_filter_shuffles)
    ultimately show "run_calls s zs = s \<and>
      notifications zs \<in>
        shuffles (notifications (calls (handleDownload env1 st1 format1)))
                 (notifications (calls (handleDownload env2 st2 format2))) \<and>
      downloads zs \<in>
        shuffles (downloads (calls (handleDownload env1 st1 format1)))
                 (downloads (calls (handleDownload env2 st2 format2)))"
      by blast
  qed
  have ok: "\<And>env st format u.
    (if format = ''PNG'' then toPng env (qrRef_current st)
     else toSvg env (qrRef_current st)) = Resolves u \<longrightarrow>
      completion (handleDownload env st format) = Value () \<and>
      notifications (calls (handleDownload env st format)) =
        [ToastSuccess (''Downloaded as '' @ format)] \<and>
      downloads (calls (handleDownload env st format)) =
        [\<lparr>download = ''qr-code.'' @ toLowerCase format, href = u\<rparr>]"
    by (simp add: handleDownload_resolves observations)
  have ko: "\<And>env st format e.
    (if format = ''PNG'' then toPng env (qrRef_current st)
     else toSvg env (qrRef_current st)) = Rejects e \<longrightarrow>
      completion (handleDownload env st format) = Value () \<and>
      notifications (calls (handleDownload env st format)) =
        [ToastError ''Download failed''] \<and>
      downloads (calls (handleDownload env st format)) = []"
    by (simp add: handleDownload_rejects observations)
  from inter ok [of format1 env1 st1 u1] ko [of format1 env1 st1 e1]
    ok [of format2 env2 st2 u2] ko [of format2 env2 st2 e2]
    handleDownload_no_throw [of env1 st1 format1 x]
    handleDownload_no_throw [of env2 st2 format2 x]
  show ?thesis
    by blast
qed

theorem concurrent_downloads_independent_witness:
  "[ToPng (qrRef_current example_state), ToSvg (qrRef_current example_state),
    ToastError ''Download failed'',
    LinkClick \<lparr>download = ''qr-code.png'', href = ''data:image/png;base64,iVBORw0KGgo=''\<rparr>,
    ToastSuccess ''Downloaded as PNG'']
     \<in> shuffles (calls (handleDownload working_platform example_state ''PNG''))
                 (calls (handleDownload detached_platform example_state ''SVG'')) \<and>
   run_calls example_state
     [ToPng (qrRef_current example_state), ToSvg (qrRef_current example_state),
      ToastError ''Download failed'',
      LinkClick \<lparr>download = ''qr-code.png'',
                 href = ''data:image/png;base64,iVBORw0KGgo=''\<rparr>,
      ToastSuccess ''Downloaded as PNG''] = example_state \<and>
   toPng working_platform (qrRef_current example_state) =
     Resolves ''data:image/png;base64,iVBORw0KGgo='' \<and>
   notifications (calls (handleDownload working_platform example_state ''PNG'')) =
     [ToastSuccess ''Downloaded as PNG''] \<and>
   toSvg detached_platform (qrRef_current example_state) = Rejects ''detached'' \<and>
   notifications (calls (handleDownload detached_platform example_state ''SVG'')) =
     [ToastError ''Download failed'']"
proof -
  have r1: "calls (handleDownload working_platform example_state ''PNG'') =
      [ToPng (qrRef_current example_state),
       LinkClick \<lparr>download = ''qr-code.png'',
                  href = ''data:image/png;base64,iVBORw0KGgo=''\<rparr>,
       ToastSuccess ''Downloaded as PNG'']"
    by (simp add: handleDownload_run calls_def working_platform_def toLowerCase_PNG)
  have r2: "calls (handleDownload detached_platform example_state ''SVG'') =
      [ToSvg (qrRef_current example_state), ToastError ''Download failed'']"
    by (simp add: handleDownload_run calls_def working_platform_def detached_platform_def)
  have mem: "[ToPng (qrRef_current example_state), ToSvg (qrRef_current example_state),
    ToastError ''Download failed'',
    LinkClick \<lparr>download = ''qr-code.png'', href = ''data:image/png;base64,iVBORw0KGgo=''\<rparr>,
    ToastSuccess ''Downloaded as PNG'']
     \<in> shuffles (calls (handleDownload working_platform example_state ''PNG''))
                 (calls (handleDownload detached_platform example_state ''SVG''))"
    unfolding r1 r2
    by (intro Cons_in_shuffles_leftI Cons_in_shuffles_rightI) simp
  have p: "toPng working_platform (qrRef_current example_state) =
             Resolves ''data:image/png;base64,iVBORw0KGgo=''"
    "toSvg detached_platform (qrRef_current example_state) = Rejects ''detached''"
    by (simp_all add: working_platform_def detached_platform_def)
  have q: "''SVG'' \<noteq> ''PNG''"
    by simp
  note t = concurrent_downloads_independent [where ?env1.0 = working_platform
      and ?st1.0 = example_state and ?format1.0 = "''PNG''"
      and ?env2.0 = detached_platform and ?st2.0 = example_state
      and ?format2.0 = "''SVG''" and s = example_state
      and ?u1.0 = "''data:image/png;base64,iVBORw0KGgo=''" and ?e2.0 = "''detached''"
      and ?e1.0 = "''detached''" and ?u2.0 = "''data:image/png;base64,iVBORw0KGgo=''"
      and x = "''detached''"]
  from t mem have a: "run_calls example_state
     [ToPng (qrRef_current example_state), ToSvg (qrRef_current example_state),
      ToastError ''Download failed'',
      LinkClick \<lparr>download = ''qr-code.png'',
                 href = ''data:image/png;base64,iVBORw0KGgo=''\<rparr>,
      ToastSuccess ''Downloaded as PNG''] = example_state"
    by blast
  from t p q have b: "notifications (calls (handleDownload working_platform example_state ''PNG'')) =
     [ToastSuccess ''Downloaded as PNG''] \<and>
     notifications (calls (handleDownload detached_platform example_state ''SVG'')) =
     [ToastError ''Download failed'']"
    by simp
  from mem a p b show ?thesis
    by blast
qed

subsection \<open>C9: a format other than \<open>PNG\<close>\<close>

text \<open>
  C9, as stated, says that any format value other than the string \<open>PNG\<close> is
  serialized as SVG and downloaded as \<open>qr-code.\<close> plus the lower-cased format, so that a
  format that is neither \<open>PNG\<close> nor \<open>SVG\<close> yields SVG content under a mismatched
  extension. The string \<open>svg\<close> is neither of the two, is serialized as SVG, and is
  downloaded as \<open>qr-code.svg\<close>, whose extension matches the content. The value
  \<open>undefined\<close> is serialized as SVG too, but \<open>format.toLowerCase()\<close> then throws:
  nothing is downloaded and \<open>Download failed\<close> is shown.
\<close>

theorem format_svg_or_undefined_counterexample:
  "JString ''svg'' \<noteq> JString ''PNG'' \<and> JString ''svg'' \<noteq> JString ''SVG'' \<and>
   svg_serialized (calls (handleDownload_any working_platform example_state (JString ''svg''))) =
     [qrRef_current example_state] \<and>
   downloads (calls (handleDownload_any working_platform example_state (JString ''svg''))) =
     [\<lparr>download = ''qr-code.svg'', href = ''data:image/svg+xml;charset=utf-8,svg''\<rparr>] \<and>
   file_extension ''qr-code.svg'' = ''svg'' \<and>
   JUndefined \<noteq> JString ''PNG'' \<and>
   svg_serialized (calls (handleDownload_any working_platform example_state JUndefined)) =
     [qrRef_current example_state] \<and>
   downloads (calls (handleDownload_any working_platform example_state JUndefined)) = [] \<and>
   notifications (calls (handleDownload_any working_platform example_state JUndefined)) =
     [ToastError ''Download failed'']"
  by (simp add: handleDownload_any_string handleDownload_any_other_run handleDownload_run
      toLowerCase_svg observations working_platform_def file_extension_def)

text \<open>
  C9, amended. For every format value other than the exact string \<open>PNG\<close>,
  \<open>handleDownload\<close> calls the SVG serializer once, on \<open>qrRef.current\<close>, and never the
  PNG serializer. If the value is a string \<open>s\<close>, every file it downloads is named
  \<open>qr-code.\<close> followed by the lower-cased \<open>s\<close>, and it downloads exactly that file,
  holding the SVG data URL, and shows \<open>Downloaded as s\<close> when the serialization
  resolves; the extension of that name is what follows the last dot of the lower-cased
  \<open>s\<close> (all of it when it has no dot), so the SVG content is saved under an extension
  other than \<open>svg\<close> exactly when that is not \<open>svg\<close>: \<open>png\<close> gives
  \<open>qr-code.png\<close>, while \<open>svg\<close>, \<open>Svg\<close> and \<open>a.svg\<close> give the extension
  \<open>svg\<close>. If the value is not a string,
  nothing is downloaded, and a resolved serialization is followed by the one
  notification \<open>Download failed\<close>.
\<close>

theorem format_other_than_PNG:
  assumes "format \<noteq> JString ''PNG''"
  shows "png_serialized (calls (handleDownload_any env st format)) = [] \<and>
         svg_serialized (calls (handleDownload_any env st format)) = [qrRef_current st] \<and>
         (format = JString s \<and> toSvg env (qrRef_current st) = Resolves u \<longrightarrow>
            downloads (calls (handleDownload_any env st format)) =
              [\<lparr>download = ''qr-code.'' @ toLowerCase s, href = u\<rparr>] \<and>
            notifications (calls (handleDownload_any env st format)) =
              [ToastSuccess (''Downloaded as '' @ s)]) \<and>
         (format = JString s \<longrightarrow>
            (\<forall>l \<in> set (downloads (calls (handleDownload_any env st format))).
               download l = ''qr-code.'' @ toLowerCase s \<and>
               file_extension (download l) = file_extension (toLowerCase s))) \<and>
         ((\<forall>t. format \<noteq> JString t) \<longrightarrow>
            downloads (calls (handleDownload_any env st format)) = [] \<and>
            (toSvg env (qrRef_current st) = Resolves u \<longrightarrow>
               completion (handleDownload_any env st format) = Value () \<and>
               notifications (calls (handleDownload_any env st format)) =
                 [ToastError ''Download failed'']))"
proof -
  have a: "png_serialized (calls (handleDownload_any env st format)) = [] \<and>
         svg_serialized (calls (handleDownload_any env st format)) = [qrRef_current st]"
    using assms by (rule handleDownload_any_serializers)
  have b: "format = JString s \<and> toSvg env (qrRef_current st) = Resolves u \<longrightarrow>
            downloads (calls (handleDownload_any env st format)) =
              [\<lparr>download = ''qr-code.'' @ toLowerCase s, href = u\<rparr>] \<and>
            notifications (calls (handleDownload_any env st format)) =
              [ToastSuccess (''Downloaded as '' @ s)]"
    using assms
    by (auto simp add: handleDownload_any_string handleDownload_run observations)
  have c: "format = JString s \<longrightarrow>
            (\<forall>l \<in> set (downloads (calls (handleDownload_any env st format))).
               download l = ''qr-code.'' @ toLowerCase s \<and>
               file_extension (download l) = file_extension (toLowerCase s))"
    using assms
    by (auto simp add: handleDownload_any_string handleDownload_run observations
        file_extension_prefix [simplified] split: promise.splits)
  have d: "(\<forall>t. format \<noteq> JString t) \<longrightarrow>
            downloads (calls (handleDownload_any env st format)) = [] \<and>
            (toSvg env (qrRef_current st) = Resolves u \<longrightarrow>
               completion (handleDownload_any env st format) = Value () \<and>
               notifications (calls (handleDownload_any env st format)) =
                 [ToastError ''Download failed''])"
    by (auto simp add: handleDownload_any_other_run observations split: promise.splits)
  from a b c d show ?thesis
    by blast
qed

theorem format_other_than_PNG_witness:
  "JString ''png'' \<noteq> JString ''PNG'' \<and>
   toSvg working_platform (qrRef_current example_state) =
     Resolves ''data:image/svg+xml;charset=utf-8,svg'' \<and>
   svg_serialized (calls (handleDownload_any working_platform example_state (JString ''png''))) =
     [qrRef_current example_state] \<and>
   downloads (calls (handleDownload_any working_platform example_state (JString ''png''))) =
     [\<lparr>download = ''qr-code.png'', href = ''data:image/svg+xml;charset=utf-8,svg''\<rparr>] \<and>
   file_extension ''qr-code.png'' = ''png'' \<and>
   JNull \<noteq> JString ''PNG'' \<and> (\<forall>t. JNull \<noteq> JString t) \<and>
   downloads (calls (handleDownload_any working_platform example_state JNull)) = [] \<and>
   notifications (calls (handleDownload_any working_platform example_state JNull)) =
     [ToastError ''Download failed'']"
proof -
  have f: "JString ''png'' \<noteq> JString ''PNG''" "JNull \<noteq> JString ''PNG''"
    "\<forall>t. JNull \<noteq> JString t"
    by simp_all
  have p: "toSvg working_platform (qrRef_current example_state) =
     Resolves ''data:image/svg+xml;charset=utf-8,svg''"
    by (simp add: working_platform_def)
  have x: "file_extension ''qr-code.png'' = ''png''"
    by (simp add: file_extension_def)
  note a = format_other_than_PNG [OF f(1), where env = working_platform
      and st = example_state and s = "''png''"
      and u = "''data:image/svg+xml;charset=utf-8,svg''"]
  note b = format_other_than_PNG [OF f(2), where env = working_platform
      and st = example_state and s = "''png''"
      and u = "''data:image/svg+xml;charset=utf-8,svg''"]
  from a p have a': "svg_serialized (calls (handleDownload_any working_platform example_state (JString ''png''))) =
     [qrRef_current example_state] \<and>
   downloads (calls (handleDownload_any working_platform example_state (JString ''png''))) =
     [\<lparr>download = ''qr-code.png'', href = ''data:image/svg+xml;charset=utf-8,svg''\<rparr>]"
    by (simp add: toLowerCase_png)
  from b p f have b': "downloads (calls (handleDownload_any working_platform example_state JNull)) = [] \<and>
   notifications (calls (handleDownload_any working_platform example_state JNull)) =
     [ToastError ''Download failed'']"
    by blast
  from f p x a' b' show ?thesis
    by blast
qed

subsection \<open>C10: the fallback payload of an empty text\<close>

text \<open>
  C10. When the text input is the empty string, the \<open>QRCodeCanvas\<close> is given the value
  \<open>https://stackblitz.com\<close>, not the empty string, and \<open>qrRef.current\<close> after that
  render is the node showing this fallback. Exports and shares triggered then work on
  that node: both downloads and the share hand it to their serializer; a download whose
  serialization resolves saves the data URL the serializer produced for it, as
  \<open>qr-code.png\<close> or \<open>qr-code.svg\<close>; and a share whose steps resolve requests the
  sharing of the file built from the PNG of that node.
\<close>

theorem empty_text_fallback:
  assumes "text_state st = ''''"
  shows "value_prop (QRCodeCanvas_props st) = ''https://stackblitz.com'' \<and>
         qrRef_current (rerender st) = Some (QRCodeCanvas_props st) \<and>
         png_serialized (calls (handleDownload env (rerender st) ''PNG'')) =
           [Some (QRCodeCanvas_props st)] \<and>
         svg_serialized (calls (handleDownload env (rerender st) ''SVG'')) =
           [Some (QRCodeCanvas_props st)] \<and>
         png_serialized (calls (handleShare env (rerender st))) =
           [Some (QRCodeCanvas_props st)] \<and>
         (toPng env (Some (QRCodeCanvas_props st)) = Resolves u \<longrightarrow>
            downloads (calls (handleDownload env (rerender st) ''PNG'')) =
              [\<lparr>download = ''qr-code.png'', href = u\<rparr>]) \<and>
         (toSvg env (Some (QRCodeCanvas_props st)) = Resolves v \<longrightarrow>
            downloads (calls (handleDownload env (rerender st) ''SVG'')) =
              [\<lparr>download = ''qr-code.svg'', href = v\<rparr>]) \<and>
         (toPng env (Some (QRCodeCanvas_props st)) = Resolves u \<and>
          fetch env u = Resolves r \<and> response_blob env r = Resolves b \<and>
          navigator_share env = Some share \<longrightarrow>
            share_requests (calls (handleShare env (rerender st))) =
              [\<lparr>share_files = [\<lparr>file_bits = [b], file_name = ''qr-code.png'',
                                file_type = ''image/png''\<rparr>],
                share_title = ''QR Code'', share_text = ''Check out this QR code!''\<rparr>])"
proof -
  have q: "qrRef_current (rerender st) = Some (QRCodeCanvas_props st)"
    by (simp add: rerender_def)
  have v: "value_prop (QRCodeCanvas_props st) = ''https://stackblitz.com''"
    using assms by (simp add: QRCodeCanvas_props_def js_or_def)
  have s: "png_serialized (calls (handleDownload env (rerender st) ''PNG'')) =
           [Some (QRCodeCanvas_props st)] \<and>
         svg_serialized (calls (handleDownload env (rerender st) ''SVG'')) =
           [Some (QRCodeCanvas_props st)]"
    by (simp add: handleDownload_run observations q split: promise.split)
  have h: "png_serialized (calls (handleShare env (rerender st))) =
           [Some (QRCodeCanvas_props st)]"
    by (simp add: handleShare_serializers q)
  have d1: "toPng env (Some (QRCodeCanvas_props st)) = Resolves u \<longrightarrow>
            downloads (calls (handleDownload env (rerender st) ''PNG'')) =
              [\<lparr>download = ''qr-code.png'', href = u\<rparr>]"
    by (simp add: handleDownload_run observations q toLowerCase_PNG)
  have d2: "toSvg env (Some (QRCodeCanvas_props st)) = Resolves v \<longrightarrow>
            downloads (calls (handleDownload env (rerender st) ''SVG'')) =
              [\<lparr>download = ''qr-code.svg'', href = v\<rparr>]"
    by (simp add: handleDownload_run observations q toLowerCase_SVG)
  have sh: "toPng env (Some (QRCodeCanvas_props st)) = Resolves u \<and>
          fetch env u = Resolves r \<and> response_blob env r = Resolves b \<and>
          navigator_share env = Some share \<longrightarrow>
            share_requests (calls (handleShare env (rerender st))) =
              [\<lparr>share_files = [\<lparr>file_bits = [b], file_name = ''qr-code.png'',
                                file_type = ''image/png''\<rparr>],
                share_title = ''QR Code'', share_text = ''Check out this QR code!''\<rparr>]"
    by (simp only: handleShare_share_requests)
      (simp add: handleShare_try_run observations q)
  from q v s h d1 d2 sh show ?thesis
    by blast
qed

theorem empty_text_fallback_witness:
  "text_state initial_state = '''' \<and>
   value_prop (QRCodeCanvas_props initial_state) = ''https://stackblitz.com'' \<and>
   toPng working_platform (Some (QRCodeCanvas_props initial_state)) =
     Resolves ''data:image/png;base64,iVBORw0KGgo='' \<and>
   downloads (calls (handleDownload working_platform (rerender initial_state) ''PNG'')) =
     [\<lparr>download = ''qr-code.png'', href = ''data:image/png;base64,iVBORw0KGgo=''\<rparr>] \<and>
   toSvg working_platform (Some (QRCodeCanvas_props initial_state)) =
     Resolves ''data:image/svg+xml;charset=utf-8,svg'' \<and>
   downloads (calls (handleDownload working_platform (rerender initial_state) ''SVG'')) =
     [\<lparr>download = ''qr-code.svg'', href = ''data:image/svg+xml;charset=utf-8,svg''\<rparr>] \<and>
   fetch working_platform ''data:image/png;base64,iVBORw0KGgo='' = Resolves (Response 200) \<and>
   response_blob working_platform (Response 200) = Resolves [137, 80, 78, 71] \<and>
   navigator_share working_platform = Some (\<lambda>d. Resolves ()) \<and>
   png_serialized (calls (handleShare working_platform (rerender initial_state))) =
     [Some (QRCodeCanvas_props initial_state)] \<and>
   share_requests (calls (handleShare working_platform (rerender initial_state))) =
     [\<lparr>share_files = [\<lparr>file_bits = [[137, 80, 78, 71]], file_name = ''qr-code.png'',
                       file_type = ''image/png''\<rparr>],
       share_title = ''QR Code'', share_text = ''Check out this QR code!''\<rparr>]"
proof -
  have t: "text_state initial_state = ''''"
    by (simp add: initial_state_def)
  have p: "toPng working_platform (Some (QRCodeCanvas_props initial_state)) =
     Resolves ''data:image/png;base64,iVBORw0KGgo=''"
    "toSvg working_platform (Some (QRCodeCanvas_props initial_state)) =
     Resolves ''data:image/svg+xml;charset=utf-8,svg''"
    "fetch working_platform ''data:image/png;base64,iVBORw0KGgo='' = Resolves (Response 200)"
    "response_blob working_platform (Response 200) = Resolves [137, 80, 78, 71]"
    "navigator_share working_platform = Some (\<lambda>d. Resolves ())"
    by (simp_all add: working_platform_def)
  note w = empty_text_fallback [OF t, where env = working_platform
      and u = "''data:image/png;base64,iVBORw0KGgo=''"
      and v = "''data:image/svg+xml;charset=utf-8,svg''"
      and r = "Response 200" and b = "[137, 80, 78, 71]" and share = "\<lambda>d. Resolves ()"]
  from t p w show ?thesis
    by blast
qed

end
